theory Spec2Isabelle
  imports Main "HOL-Library.Word"
begin

unbundle bit_operations_syntax

section \<open>Data model of dht.h and dht.c\<close>

text \<open>
  The node-local DHT logic of \<^verbatim>\<open>rn-praxis/dht.c\<close> and its header. Platform facts that the
  C text leaves to the compiler are fixed as on x86-64 and AArch64 Linux: \<^verbatim>\<open>unsigned long\<close>
  has 64 bits and the host is little-endian, so \<^verbatim>\<open>ntohs\<close> and \<^verbatim>\<open>ntohl\<close> reverse bytes.
\<close>

type_synonym dht_id = "16 word"
type_synonym ulong = "64 word"

definition LOOKUP_CACHE_ENTRIES :: nat where
  "LOOKUP_CACHE_ENTRIES = 30"

definition LOOKUP_CACHE_VALIDIY_MS :: ulong where
  "LOOKUP_CACHE_VALIDIY_MS = 2000"

definition ULONG_MAX :: ulong where
  "ULONG_MAX = - 1"

text \<open>The anonymous enum of message types; \<^verbatim>\<open>flags\<close> is a \<^verbatim>\<open>uint8_t\<close>.\<close>

definition LOOKUP :: "8 word" where "LOOKUP = 0"
definition REPLY :: "8 word" where "REPLY = 1"
definition STABILIZE :: "8 word" where "STABILIZE = 2"
definition NOTIFY :: "8 word" where "NOTIFY = 3"
definition JOIN :: "8 word" where "JOIN = 4"
definition N_OPCODES :: "8 word" where "N_OPCODES = 5"

text \<open>\<^verbatim>\<open>struct peer\<close> is packed: eight bytes, no padding. The field \<^verbatim>\<open>id\<close> is \<open>id'\<close> here.\<close>

record peer =
  id' :: dht_id
  ip :: "32 word"
  port :: "16 word"

record dht_message =
  flags :: "8 word"
  hash :: dht_id
  peer :: peer

text \<open>One slot of the table \<^verbatim>\<open>lookup_cache\<close> (an anonymous struct in the source).\<close>

record lookup_cache_entry =
  entry :: ulong
  predecessor :: dht_id
  peer :: peer

text \<open>The global variables of dht.c that the message handlers read and write.\<close>

record dht_state =
  predecessor :: peer
  self :: peer
  successor :: peer
  anchor :: peer
  lookup_cache :: "lookup_cache_entry list"

record sockaddr_in =
  sin_family :: "16 word"
  sin_addr :: "32 word"
  sin_port :: "16 word"

definition AF_INET :: "16 word" where
  "AF_INET = 2"

text \<open>
  What a handler does to the outside world: datagrams handed to \<^verbatim>\<open>sendto\<close> and lines
  written by \<^verbatim>\<open>printf\<close>. A handler that does not return normally either called
  \<^verbatim>\<open>exit\<close> or read through a null pointer.
\<close>

datatype event = Sendto dht_message sockaddr_in | Printf string

datatype abort = Exit nat | NullDereference

text \<open>
  The environment of one call of a handler: the reading of \<^verbatim>\<open>time_ms()\<close>, taken to be
  the same for every call made while one message is processed, and the return value of
  \<^verbatim>\<open>sendto\<close> for a datagram and a destination.
\<close>

record env =
  time_ms :: ulong
  sendto :: "dht_message \<Rightarrow> sockaddr_in \<Rightarrow> int"

section \<open>Byte order\<close>

definition ntohs :: "16 word \<Rightarrow> 16 word" where
  "ntohs x = push_bit 8 (take_bit 8 x) OR take_bit 8 (drop_bit 8 x)"

definition ntohl :: "32 word \<Rightarrow> 32 word" where
  "ntohl x = push_bit 24 (take_bit 8 x) OR push_bit 16 (take_bit 8 (drop_bit 8 x))
          OR push_bit 8 (take_bit 8 (drop_bit 16 x)) OR take_bit 8 (drop_bit 24 x)"

definition htons :: "16 word \<Rightarrow> 16 word" where
  "htons x = ntohs x"

definition htonl :: "32 word \<Rightarrow> 32 word" where
  "htonl x = ntohl x"

definition dht_deserialize :: "dht_message \<Rightarrow> dht_message" where
  "dht_deserialize msg =
     msg\<lparr>hash := ntohs (hash msg),
         dht_message.peer :=
           \<lparr>id' = ntohs (id' (dht_message.peer msg)),
            ip = ntohl (ip (dht_message.peer msg)),
            port = ntohs (port (dht_message.peer msg))\<rparr>\<rparr>"

definition dht_serialize :: "dht_message \<Rightarrow> dht_message" where
  "dht_serialize msg = dht_deserialize msg"

section \<open>Ring arithmetic\<close>

text \<open>
  The difference that \<^verbatim>\<open>is_responsible\<close> stores into a \<^verbatim>\<open>dht_id\<close> local: the operands
  are promoted to \<^verbatim>\<open>int\<close>, subtracted, and the result is reduced modulo \<open>2 ^ 16\<close> by the
  conversion to \<^verbatim>\<open>uint16_t\<close>, which is subtraction of 16-bit words.
\<close>

definition distance :: "dht_id \<Rightarrow> dht_id \<Rightarrow> dht_id" where
  "distance a b = b - a"

definition is_responsible :: "dht_id \<Rightarrow> dht_id \<Rightarrow> dht_id \<Rightarrow> bool" where
  "is_responsible peer_predecessor peer' ident =
     (let distance_peer_predecessor = distance ident peer_predecessor;
          distance_peer = distance ident peer'
      in peer_predecessor = peer' \<or> distance_peer < distance_peer_predecessor)"

section \<open>Cache staleness and peer comparison\<close>

definition outdated :: "env \<Rightarrow> ulong \<Rightarrow> bool" where
  "outdated env entry' = (time_ms env - entry' \<ge> LOOKUP_CACHE_VALIDIY_MS)"

text \<open>
  A \<^verbatim>\<open>struct peer*\<close> is \<open>None\<close> for \<^verbatim>\<open>NULL\<close> and otherwise \<open>Some\<close> of the peer it
  points to. \<^verbatim>\<open>memcmp\<close> reads through both pointers; on the packed eight-byte struct its
  result is 0 exactly when the three fields agree.
\<close>

definition memcmp_peer :: "peer option \<Rightarrow> peer option \<Rightarrow> abort + bool" where
  "memcmp_peer a b =
     (case a of
        None \<Rightarrow> Inl NullDereference
      | Some x \<Rightarrow> (case b of None \<Rightarrow> Inl NullDereference | Some y \<Rightarrow> Inr (x = y)))"

text \<open>\<^verbatim>\<open>a && b && (memcmp(a, b, sizeof(struct peer)) == 0)\<close>, evaluated left to right.\<close>

definition peer_cmp :: "peer option \<Rightarrow> peer option \<Rightarrow> abort + bool" where
  "peer_cmp a b =
     (if a = None then Inr False
      else if b = None then Inr False
      else memcmp_peer a b)"

section \<open>Sending\<close>

definition peer_to_sockaddr :: "peer \<Rightarrow> sockaddr_in" where
  "peer_to_sockaddr p =
     \<lparr>sin_family = AF_INET, sin_addr = htonl (ip p), sin_port = htons (port p)\<rparr>"

text \<open>
  \<^verbatim>\<open>dht_send\<close> serializes the message in place and hands it to \<^verbatim>\<open>sendto\<close>; a return
  value of -1 ends the process with \<^verbatim>\<open>exit(1)\<close>.
\<close>

definition dht_send :: "env \<Rightarrow> dht_message \<Rightarrow> peer \<Rightarrow> abort + event list" where
  "dht_send env msg p =
     (let msg' = dht_serialize msg;
          addr = peer_to_sockaddr p
      in if sendto env msg' addr = - 1 then Inl (Exit 1) else Inr [Sendto msg' addr])"

section \<open>Responsibility resolution\<close>

text \<open>The scan of \<^verbatim>\<open>dht_responsible\<close> over the table, from slot \<open>i\<close> on.\<close>

function dht_responsible_loop ::
  "env \<Rightarrow> lookup_cache_entry list \<Rightarrow> dht_id \<Rightarrow> nat \<Rightarrow> peer option" where
  "dht_responsible_loop env cache ident i =
     (if i < LOOKUP_CACHE_ENTRIES then
        (let match = is_responsible (lookup_cache_entry.predecessor (cache ! i))
                       (id' (lookup_cache_entry.peer (cache ! i))) ident
         in if match \<and> \<not> outdated env (entry (cache ! i))
            then Some (lookup_cache_entry.peer (cache ! i))
            else dht_responsible_loop env cache ident (i + 1))
      else None)"
  by pat_completeness auto
termination
  by (relation "measure (\<lambda>(env, cache, ident, i). LOOKUP_CACHE_ENTRIES - i)") auto

definition dht_responsible :: "env \<Rightarrow> dht_state \<Rightarrow> dht_id \<Rightarrow> peer option" where
  "dht_responsible env s ident =
     (if is_responsible (id' (dht_state.predecessor s)) (id' (self s)) ident then Some (self s)
      else if is_responsible (id' (self s)) (id' (successor s)) ident then Some (successor s)
      else dht_responsible_loop env (lookup_cache s) ident 0)"

section \<open>Message handlers\<close>

definition process_lookup ::
  "env \<Rightarrow> dht_state \<Rightarrow> dht_message \<Rightarrow> abort + dht_state \<times> event list" where
  "process_lookup env s lookup =
     (case peer_cmp (Some (successor s)) (dht_responsible env s (hash lookup)) of
        Inl a \<Rightarrow> Inl a
      | Inr same \<Rightarrow>
          if \<not> same then
            (case dht_send env lookup (successor s) of
               Inl a \<Rightarrow> Inl a
             | Inr evs \<Rightarrow> Inr (s, evs))
          else
            (let reply = \<lparr>flags = REPLY, hash = id' (self s), dht_message.peer = successor s\<rparr>
             in case dht_send env reply (dht_message.peer lookup) of
                  Inl a \<Rightarrow> Inl a
                | Inr evs \<Rightarrow> Inr (s, evs)))"

text \<open>
  The first loop of \<^verbatim>\<open>process_reply\<close>, from slot \<open>i\<close> on: \<open>Some\<close> of the updated table
  when the loop returns from the function, \<open>None\<close> when it runs to its end.
\<close>

function process_reply_refresh ::
  "env \<Rightarrow> dht_message \<Rightarrow> lookup_cache_entry list \<Rightarrow> nat
     \<Rightarrow> abort + lookup_cache_entry list option" where
  "process_reply_refresh env reply cache i =
     (if i < LOOKUP_CACHE_ENTRIES then
        (case peer_cmp (Some (lookup_cache_entry.peer (cache ! i)))
                (Some (dht_message.peer reply)) of
           Inl a \<Rightarrow> Inl a
         | Inr peer_match \<Rightarrow>
             (let more_recent = entry (cache ! i) < time_ms env
              in if peer_match \<and> more_recent
                 then Inr (Some (cache[i := (cache ! i)
                        \<lparr>entry := time_ms env,
                         lookup_cache_entry.predecessor := hash reply\<rparr>]))
                 else process_reply_refresh env reply cache (i + 1)))
      else Inr None)"
  by pat_completeness auto
termination
  by (relation "measure (\<lambda>(env, reply, cache, i). LOOKUP_CACHE_ENTRIES - i)") auto

text \<open>
  The second loop of \<^verbatim>\<open>process_reply\<close>, from slot \<open>i\<close> on, with the current values of
  its two locals; the loop assigns to \<^verbatim>\<open>oldest_idx\<close> only.
\<close>

function process_reply_oldest ::
  "lookup_cache_entry list \<Rightarrow> ulong \<Rightarrow> nat \<Rightarrow> nat \<Rightarrow> nat" where
  "process_reply_oldest cache oldest_time oldest_idx i =
     (if i < LOOKUP_CACHE_ENTRIES then
        process_reply_oldest cache oldest_time
          (if entry (cache ! i) < oldest_time then i else oldest_idx) (i + 1)
      else oldest_idx)"
  by pat_completeness auto
termination
  by (relation "measure (\<lambda>(cache, oldest_time, oldest_idx, i). LOOKUP_CACHE_ENTRIES - i)") auto

definition process_reply ::
  "env \<Rightarrow> dht_state \<Rightarrow> dht_message \<Rightarrow> abort + dht_state \<times> event list" where
  "process_reply env s reply =
     (case process_reply_refresh env reply (lookup_cache s) 0 of
        Inl a \<Rightarrow> Inl a
      | Inr (Some cache') \<Rightarrow> Inr (s\<lparr>lookup_cache := cache'\<rparr>, [])
      | Inr None \<Rightarrow>
          (let oldest_time = ULONG_MAX;
               oldest_idx = process_reply_oldest (lookup_cache s) oldest_time 0 0
           in Inr (s\<lparr>lookup_cache := (lookup_cache s)[oldest_idx :=
                       (lookup_cache s ! oldest_idx)
                         \<lparr>entry := time_ms env,
                          lookup_cache_entry.predecessor := hash reply,
                          lookup_cache_entry.peer := dht_message.peer reply\<rparr>]\<rparr>, [])))"

definition dht_process_message ::
  "env \<Rightarrow> dht_state \<Rightarrow> dht_message \<Rightarrow> abort + dht_state \<times> event list" where
  "dht_process_message env s msg =
     (if flags msg = LOOKUP then process_lookup env s msg
      else if flags msg = REPLY then process_reply env s msg
      else Inr (s, [Printf (''Received invalid DHT Message'' @ [CHR 0x0A])]))"

text \<open>
  The table is an array of \<^verbatim>\<open>LOOKUP_CACHE_ENTRIES\<close> slots, zero-initialized at program
  start.
\<close>

definition wf_state :: "dht_state \<Rightarrow> bool" where
  "wf_state s = (length (lookup_cache s) = LOOKUP_CACHE_ENTRIES)"

definition zero_peer :: peer where
  "zero_peer = \<lparr>id' = 0, ip = 0, port = 0\<rparr>"

definition zero_entry :: lookup_cache_entry where
  "zero_entry = \<lparr>entry = 0, lookup_cache_entry.predecessor = 0,
                 lookup_cache_entry.peer = zero_peer\<rparr>"

definition zero_cache :: "lookup_cache_entry list" where
  "zero_cache = replicate LOOKUP_CACHE_ENTRIES zero_entry"

section \<open>Example inputs\<close>

text \<open>
  A node with identifier 20 between a predecessor 10 and a successor 30, at clock reading
  10000 ms, with a \<^verbatim>\<open>sendto\<close> that succeeds. Slot 3 of its table is stale, slots 5 and
  7 are fresh.
\<close>

definition ex_env :: env where
  "ex_env = \<lparr>time_ms = 10000, sendto = (\<lambda>msg addr. 11)\<rparr>"

definition peer_a :: peer where
  "peer_a = \<lparr>id' = 50, ip = 0x0A000001, port = 4001\<rparr>"

definition peer_b :: peer where
  "peer_b = \<lparr>id' = 50, ip = 0x0A000002, port = 4002\<rparr>"

definition peer_c :: peer where
  "peer_c = \<lparr>id' = 60, ip = 0x0A000003, port = 4003\<rparr>"

definition ex_state :: dht_state where
  "ex_state =
     \<lparr>dht_state.predecessor = \<lparr>id' = 10, ip = 0x0A00000A, port = 5010\<rparr>,
      self = \<lparr>id' = 20, ip = 0x0A000014, port = 5020\<rparr>,
      successor = \<lparr>id' = 30, ip = 0x0A00001E, port = 5030\<rparr>,
      anchor = zero_peer,
      lookup_cache = zero_cache
        [3 := \<lparr>entry = 7000, lookup_cache_entry.predecessor = 35,
               lookup_cache_entry.peer = peer_a\<rparr>,
         5 := \<lparr>entry = 9000, lookup_cache_entry.predecessor = 35,
               lookup_cache_entry.peer = peer_b\<rparr>,
         7 := \<lparr>entry = 9500, lookup_cache_entry.predecessor = 35,
               lookup_cache_entry.peer = peer_c\<rparr>]\<rparr>"

text \<open>The same node with an empty table.\<close>

definition ex_empty_state :: dht_state where
  "ex_empty_state = ex_state\<lparr>lookup_cache := zero_cache\<rparr>"

text \<open>
  A table in which \<open>peer_a\<close> occupies slots 2, 4 and 6; the timestamp of slot 2 lies in
  the future of the clock reading 10000.
\<close>

definition ex_refresh_state :: dht_state where
  "ex_refresh_state = ex_state\<lparr>lookup_cache := zero_cache
     [2 := \<lparr>entry = 20000, lookup_cache_entry.predecessor = 1,
            lookup_cache_entry.peer = peer_a\<rparr>,
      4 := \<lparr>entry = 9000, lookup_cache_entry.predecessor = 2,
            lookup_cache_entry.peer = peer_a\<rparr>,
      6 := \<lparr>entry = 8000, lookup_cache_entry.predecessor = 3,
            lookup_cache_entry.peer = peer_a\<rparr>]\<rparr>"

text \<open>Lookups for the identifiers 40 (owner unknown) and 25 (owned by the successor).\<close>

definition ex_lookup :: dht_message where
  "ex_lookup = \<lparr>flags = LOOKUP, hash = 40,
                 dht_message.peer = \<lparr>id' = 7, ip = 0x0A000007, port = 5007\<rparr>\<rparr>"

definition ex_lookup_succ :: dht_message where
  "ex_lookup_succ = \<lparr>flags = LOOKUP, hash = 25,
                      dht_message.peer = \<lparr>id' = 7, ip = 0x0A000007, port = 5007\<rparr>\<rparr>"

definition ex_reply :: dht_message where
  "ex_reply = \<lparr>flags = REPLY, hash = 45, dht_message.peer = peer_a\<rparr>"

definition ex_reply_c :: dht_message where
  "ex_reply_c = \<lparr>flags = REPLY, hash = 55, dht_message.peer = peer_c\<rparr>"

section \<open>Theorems\<close>

declare dht_responsible_loop.simps [simp del]
declare process_reply_refresh.simps [simp del]
declare process_reply_oldest.simps [simp del]

subsection \<open>Wire codec\<close>

lemma byte_index_cases:
  assumes "n < (32::nat)"
  obtains k where "n = k" "k < 8" | k where "n = 8 + k" "k < 8"
    | k where "n = 16 + k" "k < 8" | k where "n = 24 + k" "k < 8"
proof -
  from assms have "n < 8 \<or> (n = 8 + (n - 8) \<and> n - 8 < 8) \<or> (n = 16 + (n - 16) \<and> n - 16 < 8)
      \<or> (n = 24 + (n - 24) \<and> n - 24 < 8)"
    by arith
  then show thesis using that by blast
qed

lemma ntohs_ntohs: "ntohs (ntohs x) = x"
  unfolding ntohs_def by (rule bit_word_eqI) (auto simp: bit_simps)

lemma ntohl_ntohl: "ntohl (ntohl x) = x"
proof (rule bit_word_eqI)
  fix n :: nat
  assume "n < LENGTH(32)"
  then have "n < 32" by simp
  then show "bit (ntohl (ntohl x)) n = bit x n"
    by (cases n rule: byte_index_cases) (simp_all add: ntohl_def bit_simps)
qed

lemma ntohs_bytes: "ntohs (word_cat (hi :: 8 word) (lo :: 8 word)) = word_cat lo hi"
  unfolding ntohs_def
  by (rule bit_word_eqI) (auto simp: bit_simps bit_word_cat_iff)

lemma ntohl_bytes:
  "ntohl (word_cat (word_cat (b3 :: 8 word) (b2 :: 8 word) :: 16 word)
                   (word_cat (b1 :: 8 word) (b0 :: 8 word) :: 16 word))
     = word_cat (word_cat b0 b1 :: 16 word) (word_cat b2 b3 :: 16 word)"
proof (rule bit_word_eqI)
  fix n :: nat
  assume "n < LENGTH(32)"
  then have "n < 32" by simp
  then show "bit (ntohl (word_cat (word_cat b3 b2 :: 16 word) (word_cat b1 b0 :: 16 word))) n
           = bit (word_cat (word_cat b0 b1 :: 16 word) (word_cat b2 b3 :: 16 word) :: 32 word) n"
    by (cases n rule: byte_index_cases) (simp_all add: ntohl_def bit_simps bit_word_cat_iff)
qed

lemma dht_deserialize_involution: "dht_deserialize (dht_deserialize m) = m"
  by (simp add: dht_deserialize_def ntohs_ntohs ntohl_ntohl)

text \<open>
  C5. For every message \<open>m\<close>, whatever its opcode byte, deserializing the serialized
  message and serializing the deserialized message both give \<open>m\<close> back. The codec is a
  total function (it has no error result), it leaves \<open>flags\<close> as it is, and it reverses
  the bytes of exactly \<open>hash\<close>, \<open>peer.id\<close>, \<open>peer.ip\<close> and \<open>peer.port\<close>: a message
  written byte by byte, most significant byte first, comes out with each of these fields
  written least significant byte first.
\<close>

theorem codec_involution_byte_swap:
  "dht_deserialize (dht_serialize m) = m
   \<and> dht_serialize (dht_deserialize m) = m
   \<and> flags (dht_deserialize m) = flags m
   \<and> flags (dht_serialize m) = flags m
   \<and> dht_deserialize
        \<lparr>flags = f, hash = word_cat (h1 :: 8 word) (h0 :: 8 word),
         dht_message.peer =
           \<lparr>id' = word_cat (i1 :: 8 word) (i0 :: 8 word),
            ip = word_cat (word_cat (a3 :: 8 word) (a2 :: 8 word) :: 16 word)
                          (word_cat (a1 :: 8 word) (a0 :: 8 word) :: 16 word),
            port = word_cat (p1 :: 8 word) (p0 :: 8 word)\<rparr>\<rparr>
       = \<lparr>flags = f, hash = word_cat h0 h1,
          dht_message.peer =
            \<lparr>id' = word_cat i0 i1,
             ip = word_cat (word_cat a0 a1 :: 16 word) (word_cat a2 a3 :: 16 word),
             port = word_cat p0 p1\<rparr>\<rparr>"
proof -
  have "dht_deserialize (dht_serialize m) = m" "dht_serialize (dht_deserialize m) = m"
    by (simp_all add: dht_serialize_def dht_deserialize_involution)
  moreover have "flags (dht_deserialize m) = flags m" "flags (dht_serialize m) = flags m"
    by (simp_all add: dht_serialize_def dht_deserialize_def)
  moreover have "dht_deserialize
        \<lparr>flags = f, hash = word_cat h1 h0,
         dht_message.peer =
           \<lparr>id' = word_cat i1 i0,
            ip = word_cat (word_cat a3 a2 :: 16 word) (word_cat a1 a0 :: 16 word),
            port = word_cat p1 p0\<rparr>\<rparr>
       = \<lparr>flags = f, hash = word_cat h0 h1,
          dht_message.peer =
            \<lparr>id' = word_cat i0 i1,
             ip = word_cat (word_cat a0 a1 :: 16 word) (word_cat a2 a3 :: 16 word),
             port = word_cat p0 p1\<rparr>\<rparr>"
    by (simp add: dht_deserialize_def ntohs_bytes ntohl_bytes)
  ultimately show ?thesis by simp
qed

subsection \<open>Ring arithmetic\<close>

text \<open>
  C4. \<open>is_responsible peer_predecessor peer' ident\<close> holds exactly when
  \<open>peer_predecessor = peer'\<close>, or the ring distance from \<open>ident\<close> to \<open>peer'\<close>, which is
  \<open>(peer' - ident) mod 65536\<close> on the unsigned values, is strictly less than the ring
  distance from \<open>ident\<close> to \<open>peer_predecessor\<close>. In particular
  \<open>is_responsible p p ident\<close> holds for every \<open>p\<close> and \<open>ident\<close>.
\<close>

theorem is_responsible_iff_ring_distance:
  "(is_responsible peer_predecessor peer' ident \<longleftrightarrow>
      peer_predecessor = peer'
      \<or> (uint peer' - uint ident) mod 65536 < (uint peer_predecessor - uint ident) mod 65536)
   \<and> is_responsible p p ident"
  by (simp add: is_responsible_def distance_def word_less_alt uint_word_ariths)

theorem is_responsible_iff_ring_distance_witness:
  "is_responsible 65530 5 2 \<and> \<not> is_responsible 65530 5 7 \<and> is_responsible 9 9 1234"
  using is_responsible_iff_ring_distance [of 65530 5 2 9 ]
    is_responsible_iff_ring_distance [of 65530 5 7 9]
    is_responsible_iff_ring_distance [of 0 0 1234 9]
  by simp

text \<open>
  C8. The ring distance \<open>distance a b = b - a\<close> in 16-bit unsigned arithmetic is 0 from
  an identifier to itself; for two different identifiers the distances in the two
  directions are both nonzero and add up to the ring size 65536.
\<close>

theorem distance_wraparound:
  "distance a a = 0
   \<and> (a \<noteq> b \<longrightarrow> unat (distance a b) + unat (distance b a) = 65536
                 \<and> distance a b \<noteq> 0 \<and> distance b a \<noteq> 0)"
proof -
  have la: "unat a < 65536" and lb: "unat b < 65536"
    using unsigned_less [of a, where 'a = nat] unsigned_less [of b, where 'a = nat] by simp_all
  have "unat (b - a) + unat (a - b) = 65536" if "a \<noteq> b"
  proof -
    from that have "unat a \<noteq> unat b" by (simp add: word_unat_eq_iff)
    with la lb show ?thesis by (simp add: unat_sub_if_size word_size)
  qed
  then show ?thesis by (simp add: distance_def)
qed

theorem distance_wraparound_witness:
  "(65530 :: dht_id) \<noteq> 5
   \<and> distance (65530 :: dht_id) 65530 = 0
   \<and> unat (distance 65530 5) + unat (distance 5 65530) = 65536
   \<and> distance 65530 5 \<noteq> 0 \<and> distance 5 65530 \<noteq> 0"
  using distance_wraparound [of 65530 5] by simp

text \<open>
  C10. Every peer is responsible for its own identifier:
  \<open>is_responsible p peer' peer'\<close> holds for all \<open>p\<close> and \<open>peer'\<close>, by the first disjunct
  when \<open>p = peer'\<close> and otherwise because the distance from \<open>peer'\<close> to itself is 0 and
  the distance from \<open>peer'\<close> to \<open>p\<close> is not.
\<close>

theorem is_responsible_own_id: "is_responsible p peer' peer'"
  by (auto simp: is_responsible_def distance_def word_neq_0_conv [symmetric])

subsection \<open>Peer comparison and the loops\<close>

lemma peer_cmp_eq: "peer_cmp a b = Inr (a \<noteq> None \<and> a = b)"
  by (cases a; cases b) (auto simp: peer_cmp_def memcmp_peer_def)

lemma dht_responsible_loop_find:
  assumes "length cache = LOOKUP_CACHE_ENTRIES"
  shows "dht_responsible_loop env cache ident i =
     map_option lookup_cache_entry.peer
       (find (\<lambda>e. is_responsible (lookup_cache_entry.predecessor e)
                    (id' (lookup_cache_entry.peer e)) ident
                 \<and> time_ms env - entry e < 2000) (drop i cache))"
  using assms
proof (induction env cache ident i rule: dht_responsible_loop.induct)
  case (1 env cache ident i)
  show ?case
  proof (cases "i < LOOKUP_CACHE_ENTRIES")
    case True
    with "1.prems" have d: "drop i cache = cache ! i # drop (i + 1) cache"
      by (simp add: Cons_nth_drop_Suc)
    show ?thesis
      using True "1.IH" "1.prems"
      by (subst dht_responsible_loop.simps)
         (auto simp: d outdated_def LOOKUP_CACHE_VALIDIY_MS_def Let_def not_le)
  next
    case False
    with "1.prems" show ?thesis
      by (subst dht_responsible_loop.simps) simp
  qed
qed

lemma process_reply_refresh_unfold:
  "process_reply_refresh env reply cache i =
     (if i < LOOKUP_CACHE_ENTRIES then
        (if lookup_cache_entry.peer (cache ! i) = dht_message.peer reply
              \<and> entry (cache ! i) < time_ms env
         then Inr (Some (cache[i := (cache ! i)
                \<lparr>entry := time_ms env, lookup_cache_entry.predecessor := hash reply\<rparr>]))
         else process_reply_refresh env reply cache (i + 1))
      else Inr None)"
  by (subst process_reply_refresh.simps) (simp add: peer_cmp_eq Let_def)

lemma process_reply_refresh_skip:
  assumes "\<forall>j. i \<le> j \<and> j < k \<longrightarrow>
             \<not> (lookup_cache_entry.peer (cache ! j) = dht_message.peer reply
                \<and> entry (cache ! j) < time_ms env)"
    and "i \<le> k" and "k \<le> LOOKUP_CACHE_ENTRIES"
  shows "process_reply_refresh env reply cache i = process_reply_refresh env reply cache k"
  using assms
proof (induction "k - i" arbitrary: i)
  case 0
  then show ?case by simp
next
  case (Suc n)
  then have lt: "i < k" "i < LOOKUP_CACHE_ENTRIES" by simp_all
  with Suc.prems have no: "\<not> (lookup_cache_entry.peer (cache ! i) = dht_message.peer reply
                \<and> entry (cache ! i) < time_ms env)"
    by simp
  have "process_reply_refresh env reply cache i = process_reply_refresh env reply cache (i + 1)"
    using lt no by (subst process_reply_refresh_unfold) auto
  also have "\<dots> = process_reply_refresh env reply cache k"
    using Suc.hyps(2) Suc.prems lt by (intro Suc.hyps(1)) auto
  finally show ?case .
qed

lemma process_reply_refresh_none:
  assumes "\<forall>j < LOOKUP_CACHE_ENTRIES.
             \<not> (lookup_cache_entry.peer (cache ! j) = dht_message.peer reply
                \<and> entry (cache ! j) < time_ms env)"
  shows "process_reply_refresh env reply cache 0 = Inr None"
proof -
  have "process_reply_refresh env reply cache 0
          = process_reply_refresh env reply cache LOOKUP_CACHE_ENTRIES"
    using assms by (intro process_reply_refresh_skip) auto
  also have "\<dots> = Inr None"
    by (subst process_reply_refresh_unfold) simp
  finally show ?thesis .
qed

text \<open>
  The second loop never assigns to \<^verbatim>\<open>oldest_time\<close>, so every slot is compared with the
  initial bound and the last slot below it wins: with the last slot below the bound, the
  loop ends with the index of the last slot.
\<close>

lemma process_reply_oldest_last:
  assumes "i < LOOKUP_CACHE_ENTRIES"
    and "entry (cache ! (LOOKUP_CACHE_ENTRIES - 1)) < oldest_time"
  shows "process_reply_oldest cache oldest_time oldest_idx i = LOOKUP_CACHE_ENTRIES - 1"
  using assms
proof (induction "LOOKUP_CACHE_ENTRIES - i" arbitrary: i oldest_idx)
  case 0
  then show ?case by simp
next
  case (Suc n)
  show ?case
  proof (cases "i + 1 < LOOKUP_CACHE_ENTRIES")
    case True
    with Suc show ?thesis
      by (subst process_reply_oldest.simps) simp
  next
    case False
    with Suc.prems have i: "i = LOOKUP_CACHE_ENTRIES - 1" by simp
    have "process_reply_oldest cache oldest_time oldest_idx i
        = process_reply_oldest cache oldest_time i (i + 1)"
      using Suc.prems i by (subst process_reply_oldest.simps) simp
    also have "\<dots> = i"
      using False by (subst process_reply_oldest.simps) simp
    finally show ?thesis using i by simp
  qed
qed

lemma process_reply_evicts_last_slot:
  assumes "\<forall>j < LOOKUP_CACHE_ENTRIES.
             \<not> (lookup_cache_entry.peer (lookup_cache s ! j) = dht_message.peer reply
                \<and> entry (lookup_cache s ! j) < time_ms env)"
    and "entry (lookup_cache s ! (LOOKUP_CACHE_ENTRIES - 1)) < ULONG_MAX"
  shows "process_reply env s reply =
           Inr (s\<lparr>lookup_cache := (lookup_cache s)[LOOKUP_CACHE_ENTRIES - 1 :=
                    (lookup_cache s ! (LOOKUP_CACHE_ENTRIES - 1))
                      \<lparr>entry := time_ms env,
                       lookup_cache_entry.predecessor := hash reply,
                       lookup_cache_entry.peer := dht_message.peer reply\<rparr>]\<rparr>, [])"
proof -
  have "process_reply_oldest (lookup_cache s) ULONG_MAX 0 0 = LOOKUP_CACHE_ENTRIES - 1"
    using assms(2) by (intro process_reply_oldest_last) (simp_all add: LOOKUP_CACHE_ENTRIES_def)
  then show ?thesis
    using process_reply_refresh_none [OF assms(1)] by (simp add: process_reply_def Let_def)
qed

lemma ex_state_wf: "wf_state ex_state"
  by code_simp

subsection \<open>Responsibility resolution\<close>

text \<open>
  C3. On a table of 30 slots, \<open>dht_responsible\<close> returns \<open>self\<close> if
  \<open>is_responsible (predecessor.id) (self.id) ident\<close>; otherwise \<open>successor\<close> if
  \<open>is_responsible (self.id) (successor.id) ident\<close>; otherwise the peer of the first slot,
  in table order, whose entry satisfies \<open>is_responsible\<close> on its predecessor and its
  peer's identifier and whose timestamp satisfies \<open>now - timestamp < 2000\<close> in
  \<^verbatim>\<open>unsigned long\<close> arithmetic; otherwise \<open>None\<close> (\<^verbatim>\<open>NULL\<close>). Slots with
  \<open>now - timestamp \<ge> 2000\<close> are passed over; the function only reads the table, so they
  stay in it.
\<close>

theorem dht_responsible_resolution:
  assumes "wf_state s"
  shows "dht_responsible env s ident =
     (if is_responsible (id' (dht_state.predecessor s)) (id' (self s)) ident
      then Some (self s)
      else if is_responsible (id' (self s)) (id' (successor s)) ident
      then Some (successor s)
      else map_option lookup_cache_entry.peer
        (find (\<lambda>e. is_responsible (lookup_cache_entry.predecessor e)
                     (id' (lookup_cache_entry.peer e)) ident
                 \<and> time_ms env - entry e < 2000) (lookup_cache s)))"
  using assms dht_responsible_loop_find [of "lookup_cache s" env ident 0]
  by (simp add: dht_responsible_def wf_state_def)

theorem dht_responsible_resolution_witness:
  "wf_state ex_state \<and> dht_responsible ex_env ex_state 40 = Some peer_b"
proof -
  have "dht_responsible ex_env ex_state 40 =
     (if is_responsible (id' (dht_state.predecessor ex_state)) (id' (self ex_state)) 40
      then Some (self ex_state)
      else if is_responsible (id' (self ex_state)) (id' (successor ex_state)) 40
      then Some (successor ex_state)
      else map_option lookup_cache_entry.peer
        (find (\<lambda>e. is_responsible (lookup_cache_entry.predecessor e)
                     (id' (lookup_cache_entry.peer e)) 40
                 \<and> time_ms ex_env - entry e < 2000) (lookup_cache ex_state)))"
    by (rule dht_responsible_resolution [OF ex_state_wf])
  also have "\<dots> = Some peer_b"
    by code_simp
  finally show ?thesis using ex_state_wf by blast
qed

subsection \<open>Lookup handling\<close>

text \<open>
  C2. For every state and every incoming LOOKUP: if the peer that \<open>dht_responsible\<close>
  resolves for the message's \<open>hash\<close> equals \<open>successor\<close> field by field, the node hands
  to \<^verbatim>\<open>sendto\<close>, addressed to the lookup's originator \<open>peer\<close>, the serialized REPLY
  with \<open>hash = self.id\<close> and \<open>peer = successor\<close>; otherwise it hands to \<^verbatim>\<open>sendto\<close>,
  addressed to \<open>successor\<close>, the serialized incoming message with \<open>flags\<close>, \<open>hash\<close> and
  \<open>peer\<close> as received. The state is unchanged; a \<^verbatim>\<open>sendto\<close> that returns -1 ends the
  process.
\<close>

theorem process_lookup_reply_or_forward:
  "process_lookup env s lookup =
     (if dht_responsible env s (hash lookup) = Some (successor s) then
        (if sendto env
              (dht_serialize
                 \<lparr>flags = REPLY, hash = id' (self s), dht_message.peer = successor s\<rparr>)
              (peer_to_sockaddr (dht_message.peer lookup)) = - 1
         then Inl (Exit 1)
         else Inr (s, [Sendto
              (dht_serialize
                 \<lparr>flags = REPLY, hash = id' (self s), dht_message.peer = successor s\<rparr>)
              (peer_to_sockaddr (dht_message.peer lookup))]))
      else
        (if sendto env (dht_serialize lookup) (peer_to_sockaddr (successor s)) = - 1
         then Inl (Exit 1)
         else Inr (s, [Sendto (dht_serialize lookup) (peer_to_sockaddr (successor s))])))"
  by (auto simp: process_lookup_def peer_cmp_eq dht_send_def Let_def)

theorem process_lookup_reply_or_forward_witness:
  "process_lookup ex_env ex_state ex_lookup_succ =
     Inr (ex_state,
          [Sendto \<lparr>flags = 1, hash = 0x1400,
                   dht_message.peer = \<lparr>id' = 0x1E00, ip = 0x1E00000A, port = 0xA613\<rparr>\<rparr>
                  \<lparr>sin_family = 2, sin_addr = 0x0700000A, sin_port = 0x8F13\<rparr>])
   \<and> process_lookup ex_env ex_state ex_lookup =
     Inr (ex_state,
          [Sendto \<lparr>flags = 0, hash = 0x2800,
                   dht_message.peer = \<lparr>id' = 0x0700, ip = 0x0700000A, port = 0x8F13\<rparr>\<rparr>
                  \<lparr>sin_family = 2, sin_addr = 0x1E00000A, sin_port = 0xA613\<rparr>])"
proof -
  have "process_lookup ex_env ex_state ex_lookup_succ =
     (if dht_responsible ex_env ex_state (hash ex_lookup_succ) = Some (successor ex_state) then
        (if sendto ex_env
              (dht_serialize \<lparr>flags = REPLY, hash = id' (self ex_state),
                              dht_message.peer = successor ex_state\<rparr>)
              (peer_to_sockaddr (dht_message.peer ex_lookup_succ)) = - 1
         then Inl (Exit 1)
         else Inr (ex_state, [Sendto
              (dht_serialize \<lparr>flags = REPLY, hash = id' (self ex_state),
                              dht_message.peer = successor ex_state\<rparr>)
              (peer_to_sockaddr (dht_message.peer ex_lookup_succ))]))
      else
        (if sendto ex_env (dht_serialize ex_lookup_succ)
              (peer_to_sockaddr (successor ex_state)) = - 1
         then Inl (Exit 1)
         else Inr (ex_state, [Sendto (dht_serialize ex_lookup_succ)
                                 (peer_to_sockaddr (successor ex_state))])))"
    by (rule process_lookup_reply_or_forward)
  also have "\<dots> = Inr (ex_state,
          [Sendto \<lparr>flags = 1, hash = 0x1400,
                   dht_message.peer = \<lparr>id' = 0x1E00, ip = 0x1E00000A, port = 0xA613\<rparr>\<rparr>
                  \<lparr>sin_family = 2, sin_addr = 0x0700000A, sin_port = 0x8F13\<rparr>])"
    by code_simp
  finally have reply: "process_lookup ex_env ex_state ex_lookup_succ = Inr (ex_state,
          [Sendto \<lparr>flags = 1, hash = 0x1400,
                   dht_message.peer = \<lparr>id' = 0x1E00, ip = 0x1E00000A, port = 0xA613\<rparr>\<rparr>
                  \<lparr>sin_family = 2, sin_addr = 0x0700000A, sin_port = 0x8F13\<rparr>])" .
  have "process_lookup ex_env ex_state ex_lookup =
     (if dht_responsible ex_env ex_state (hash ex_lookup) = Some (successor ex_state) then
        (if sendto ex_env
              (dht_serialize \<lparr>flags = REPLY, hash = id' (self ex_state),
                              dht_message.peer = successor ex_state\<rparr>)
              (peer_to_sockaddr (dht_message.peer ex_lookup)) = - 1
         then Inl (Exit 1)
         else Inr (ex_state, [Sendto
              (dht_serialize \<lparr>flags = REPLY, hash = id' (self ex_state),
                              dht_message.peer = successor ex_state\<rparr>)
              (peer_to_sockaddr (dht_message.peer ex_lookup))]))
      else
        (if sendto ex_env (dht_serialize ex_lookup)
              (peer_to_sockaddr (successor ex_state)) = - 1
         then Inl (Exit 1)
         else Inr (ex_state, [Sendto (dht_serialize ex_lookup)
                                 (peer_to_sockaddr (successor ex_state))])))"
    by (rule process_lookup_reply_or_forward)
  also have "\<dots> = Inr (ex_state,
          [Sendto \<lparr>flags = 0, hash = 0x2800,
                   dht_message.peer = \<lparr>id' = 0x0700, ip = 0x0700000A, port = 0x8F13\<rparr>\<rparr>
                  \<lparr>sin_family = 2, sin_addr = 0x1E00000A, sin_port = 0xA613\<rparr>])"
    by code_simp
  finally have forward: "process_lookup ex_env ex_state ex_lookup = Inr (ex_state,
          [Sendto \<lparr>flags = 0, hash = 0x2800,
                   dht_message.peer = \<lparr>id' = 0x0700, ip = 0x0700000A, port = 0x8F13\<rparr>\<rparr>
                  \<lparr>sin_family = 2, sin_addr = 0x1E00000A, sin_port = 0xA613\<rparr>])" .
  from reply forward show ?thesis by (rule conjI)
qed

text \<open>
  C9. When \<open>dht_responsible\<close> returns \<^verbatim>\<open>NULL\<close>, \<open>process_lookup\<close> is well defined and
  forwards the unmodified LOOKUP to \<open>successor\<close>: \<open>peer_cmp\<close> answers false for a
  \<^verbatim>\<open>NULL\<close> argument on either side without reaching \<^verbatim>\<open>memcmp\<close>, and \<open>process_lookup\<close>
  never ends in a null dereference.
\<close>

theorem process_lookup_null_owner:
  "peer_cmp a None = Inr False
   \<and> peer_cmp None b = Inr False
   \<and> process_lookup env s lookup \<noteq> Inl NullDereference
   \<and> (dht_responsible env s (hash lookup) = None \<longrightarrow>
        process_lookup env s lookup =
          (if sendto env (dht_serialize lookup) (peer_to_sockaddr (successor s)) = - 1
           then Inl (Exit 1)
           else Inr (s, [Sendto (dht_serialize lookup) (peer_to_sockaddr (successor s))])))"
  by (auto simp: process_lookup_def peer_cmp_eq dht_send_def Let_def)

theorem process_lookup_null_owner_witness:
  "dht_responsible ex_env ex_empty_state (hash ex_lookup) = None
   \<and> process_lookup ex_env ex_empty_state ex_lookup =
       Inr (ex_empty_state,
            [Sendto (dht_serialize ex_lookup) (peer_to_sockaddr (successor ex_empty_state))])"
proof -
  have n: "dht_responsible ex_env ex_empty_state (hash ex_lookup) = None"
    by code_simp
  have "process_lookup ex_env ex_empty_state ex_lookup =
          (if sendto ex_env (dht_serialize ex_lookup)
                (peer_to_sockaddr (successor ex_empty_state)) = - 1
           then Inl (Exit 1)
           else Inr (ex_empty_state,
                 [Sendto (dht_serialize ex_lookup)
                    (peer_to_sockaddr (successor ex_empty_state))]))"
    using process_lookup_null_owner [of None None ex_env ex_empty_state ex_lookup] n
    by blast
  also have "\<dots> = Inr (ex_empty_state,
            [Sendto (dht_serialize ex_lookup) (peer_to_sockaddr (successor ex_empty_state))])"
    by (simp add: ex_env_def)
  finally show ?thesis using n by blast
qed

subsection \<open>Reply handling\<close>

text \<open>
  C6. On a table of 30 slots, let \<open>i\<close> be the first slot whose stored peer equals the
  REPLY's peer and whose timestamp is strictly less than the clock reading. Then the
  first loop of \<open>process_reply\<close> returns from the function, and the new table is the old
  one with slot \<open>i\<close>'s \<open>entry\<close> set to the clock reading and its \<open>predecessor\<close> set to
  the REPLY's \<open>hash\<close>: the \<open>peer\<close> field of slot \<open>i\<close>, every other slot and the rest of
  the state are as before, and nothing is sent.
\<close>

theorem process_reply_refresh_first_match:
  assumes "wf_state s"
    and "i < LOOKUP_CACHE_ENTRIES"
    and "lookup_cache_entry.peer (lookup_cache s ! i) = dht_message.peer reply"
    and "entry (lookup_cache s ! i) < time_ms env"
    and "\<forall>j < i. \<not> (lookup_cache_entry.peer (lookup_cache s ! j) = dht_message.peer reply
                      \<and> entry (lookup_cache s ! j) < time_ms env)"
  shows "process_reply_refresh env reply (lookup_cache s) 0 =
           Inr (Some ((lookup_cache s)[i := (lookup_cache s ! i)
                  \<lparr>entry := time_ms env, lookup_cache_entry.predecessor := hash reply\<rparr>]))
       \<and> process_reply env s reply =
           Inr (s\<lparr>lookup_cache := (lookup_cache s)[i := (lookup_cache s ! i)
                  \<lparr>entry := time_ms env, lookup_cache_entry.predecessor := hash reply\<rparr>]\<rparr>, [])"
proof -
  have "process_reply_refresh env reply (lookup_cache s) 0
          = process_reply_refresh env reply (lookup_cache s) i"
    using assms(2,5) by (intro process_reply_refresh_skip) auto
  also have "\<dots> = Inr (Some ((lookup_cache s)[i := (lookup_cache s ! i)
                  \<lparr>entry := time_ms env, lookup_cache_entry.predecessor := hash reply\<rparr>]))"
    using assms(2,3,4) by (subst process_reply_refresh_unfold) simp
  finally show ?thesis by (simp add: process_reply_def)
qed

theorem process_reply_refresh_first_match_witness:
  "wf_state ex_refresh_state
   \<and> lookup_cache_entry.peer (lookup_cache ex_refresh_state ! 2) = dht_message.peer ex_reply
   \<and> \<not> entry (lookup_cache ex_refresh_state ! 2) < time_ms ex_env
   \<and> lookup_cache_entry.peer (lookup_cache ex_refresh_state ! 4) = dht_message.peer ex_reply
   \<and> entry (lookup_cache ex_refresh_state ! 4) < time_ms ex_env
   \<and> process_reply ex_env ex_refresh_state ex_reply =
       Inr (ex_state\<lparr>lookup_cache := zero_cache
         [2 := \<lparr>entry = 20000, lookup_cache_entry.predecessor = 1,
                lookup_cache_entry.peer = peer_a\<rparr>,
          4 := \<lparr>entry = 10000, lookup_cache_entry.predecessor = 45,
                lookup_cache_entry.peer = peer_a\<rparr>,
          6 := \<lparr>entry = 8000, lookup_cache_entry.predecessor = 3,
                lookup_cache_entry.peer = peer_a\<rparr>]\<rparr>, [])"
proof -
  have wf: "wf_state ex_refresh_state"
    by code_simp
  have i: "4 < LOOKUP_CACHE_ENTRIES"
    by (simp add: LOOKUP_CACHE_ENTRIES_def)
  have m: "lookup_cache_entry.peer (lookup_cache ex_refresh_state ! 4) = dht_message.peer ex_reply"
    by code_simp
  have r: "entry (lookup_cache ex_refresh_state ! 4) < time_ms ex_env"
    by code_simp
  have e0: "\<not> (lookup_cache_entry.peer (lookup_cache ex_refresh_state ! 0)
                  = dht_message.peer ex_reply
              \<and> entry (lookup_cache ex_refresh_state ! 0) < time_ms ex_env)"
    by code_simp
  have e1: "\<not> (lookup_cache_entry.peer (lookup_cache ex_refresh_state ! 1)
                  = dht_message.peer ex_reply
              \<and> entry (lookup_cache ex_refresh_state ! 1) < time_ms ex_env)"
    by code_simp
  have e2: "lookup_cache_entry.peer (lookup_cache ex_refresh_state ! 2) = dht_message.peer ex_reply"
    "\<not> entry (lookup_cache ex_refresh_state ! 2) < time_ms ex_env"
    by code_simp+
  have e3: "\<not> (lookup_cache_entry.peer (lookup_cache ex_refresh_state ! 3)
                  = dht_message.peer ex_reply
              \<and> entry (lookup_cache ex_refresh_state ! 3) < time_ms ex_env)"
    by code_simp
  have f: "\<forall>j < 4. \<not> (lookup_cache_entry.peer (lookup_cache ex_refresh_state ! j)
                         = dht_message.peer ex_reply
                     \<and> entry (lookup_cache ex_refresh_state ! j) < time_ms ex_env)"
  proof (intro allI impI)
    fix j :: nat
    assume "j < 4"
    then have "j = 0 \<or> j = 1 \<or> j = 2 \<or> j = 3" by arith
    with e0 e1 e2 e3
    show "\<not> (lookup_cache_entry.peer (lookup_cache ex_refresh_state ! j)
               = dht_message.peer ex_reply
            \<and> entry (lookup_cache ex_refresh_state ! j) < time_ms ex_env)"
      by blast
  qed
  have "process_reply ex_env ex_refresh_state ex_reply =
      Inr (ex_refresh_state\<lparr>lookup_cache := (lookup_cache ex_refresh_state)
             [4 := (lookup_cache ex_refresh_state ! 4)
                \<lparr>entry := time_ms ex_env,
                 lookup_cache_entry.predecessor := hash ex_reply\<rparr>]\<rparr>, [])"
    using process_reply_refresh_first_match [OF wf i m r f] by blast
  also have "\<dots> = Inr (ex_state\<lparr>lookup_cache := zero_cache
         [2 := \<lparr>entry = 20000, lookup_cache_entry.predecessor = 1,
                lookup_cache_entry.peer = peer_a\<rparr>,
          4 := \<lparr>entry = 10000, lookup_cache_entry.predecessor = 45,
                lookup_cache_entry.peer = peer_a\<rparr>,
          6 := \<lparr>entry = 8000, lookup_cache_entry.predecessor = 3,
                lookup_cache_entry.peer = peer_a\<rparr>]\<rparr>, [])"
    by code_simp
  finally show ?thesis using wf e2 m r by blast
qed

text \<open>
  C1. The claim is that, when no slot holds the REPLY's peer, \<open>process_reply\<close> overwrites
  the slot with the smallest timestamp of the table, so that REPLYs from distinct peers
  fill an empty table slot by slot. The code does otherwise: starting from the
  zero-initialized table, a REPLY from \<open>peer_a\<close> at clock reading 1000 is stored in the
  last slot, 29, and a following REPLY from \<open>peer_c\<close> at clock reading 1500 is stored in
  slot 29 again, replacing the entry of \<open>peer_a\<close>, although slot 0 still has timestamp 0,
  which is smaller than the 1000 of slot 29.
\<close>

theorem process_reply_overwrites_newest_entry:
  "process_reply (ex_env\<lparr>time_ms := 1000\<rparr>) ex_empty_state ex_reply =
     Inr (ex_state\<lparr>lookup_cache := zero_cache
            [29 := \<lparr>entry = 1000, lookup_cache_entry.predecessor = 45,
                    lookup_cache_entry.peer = peer_a\<rparr>]\<rparr>, [])
   \<and> entry (zero_cache
            [29 := \<lparr>entry = 1000, lookup_cache_entry.predecessor = 45,
                    lookup_cache_entry.peer = peer_a\<rparr>] ! 0)
       < entry (zero_cache
            [29 := \<lparr>entry = 1000, lookup_cache_entry.predecessor = 45,
                    lookup_cache_entry.peer = peer_a\<rparr>] ! 29)
   \<and> process_reply (ex_env\<lparr>time_ms := 1500\<rparr>)
       (ex_state\<lparr>lookup_cache := zero_cache
            [29 := \<lparr>entry = 1000, lookup_cache_entry.predecessor = 45,
                    lookup_cache_entry.peer = peer_a\<rparr>]\<rparr>) ex_reply_c =
     Inr (ex_state\<lparr>lookup_cache := zero_cache
            [29 := \<lparr>entry = 1500, lookup_cache_entry.predecessor = 55,
                    lookup_cache_entry.peer = peer_c\<rparr>]\<rparr>, [])"
  by code_simp

subsection \<open>Dispatch\<close>

text \<open>
  C7. A message whose opcode is neither LOOKUP nor REPLY (STABILIZE, NOTIFY, JOIN or any
  value above 4) makes \<open>dht_process_message\<close> return normally with the state, and with
  it the table and the three peer slots, unchanged; its only effect is the line printed
  by \<^verbatim>\<open>printf\<close>, and nothing is handed to \<^verbatim>\<open>sendto\<close>.
\<close>

theorem dht_process_message_invalid_opcode:
  assumes "flags msg \<noteq> LOOKUP" and "flags msg \<noteq> REPLY"
  shows "dht_process_message env s msg =
           Inr (s, [Printf (''Received invalid DHT Message'' @ [CHR 0x0A])])"
  using assms by (simp add: dht_process_message_def)

theorem dht_process_message_invalid_opcode_witness:
  "flags (ex_lookup\<lparr>flags := STABILIZE\<rparr>) \<noteq> LOOKUP
   \<and> flags (ex_lookup\<lparr>flags := STABILIZE\<rparr>) \<noteq> REPLY
   \<and> dht_process_message ex_env ex_state (ex_lookup\<lparr>flags := STABILIZE\<rparr>) =
          Inr (ex_state, [Printf (''Received invalid DHT Message'' @ [CHR 0x0A])])
   \<and> flags (ex_lookup\<lparr>flags := 200\<rparr>) \<noteq> LOOKUP
   \<and> flags (ex_lookup\<lparr>flags := 200\<rparr>) \<noteq> REPLY
   \<and> dht_process_message ex_env ex_state (ex_lookup\<lparr>flags := 200\<rparr>) =
          Inr (ex_state, [Printf (''Received invalid DHT Message'' @ [CHR 0x0A])])"
proof -
  have 1: "flags (ex_lookup\<lparr>flags := STABILIZE\<rparr>) \<noteq> LOOKUP"
    and 2: "flags (ex_lookup\<lparr>flags := STABILIZE\<rparr>) \<noteq> REPLY"
    and 3: "flags (ex_lookup\<lparr>flags := 200\<rparr>) \<noteq> LOOKUP"
    and 4: "flags (ex_lookup\<lparr>flags := 200\<rparr>) \<noteq> REPLY"
    by (simp_all add: LOOKUP_def REPLY_def STABILIZE_def)
  from dht_process_message_invalid_opcode [OF 1 2, of ex_env ex_state]
    dht_process_message_invalid_opcode [OF 3 4, of ex_env ex_state] 1 2 3 4
  show ?thesis by blast
qed

end
